theory Spec2Isabelle
  imports Main
begin

unbundle bit_operations_syntax

section \<open>Data model\<close>

text \<open>
  The enumerations \<open>FileStatus\<close> and \<open>FileResult\<close> and the class \<open>PendingFile\<close> of
  \<^verbatim>\<open>BatchScriptExecution.py\<close>. A field that Python initialises to \<open>None\<close> is an
  \<open>option\<close>; \<open>status\<close> is always assigned by the constructor.
\<close>

datatype FileStatus = does_not_exist | writable | read_only | skip

datatype FileResult =
    success | failed | file_invalid | file_tampered | file_missing
  | file_not_found | file_read_only | file_skipped

record pending_file =
  path :: string
  file_name :: "string option"
  status :: FileStatus
  result :: "FileResult option"
  warning :: "string option"

text \<open>Exceptions, each with its message.\<close>

datatype error = OSError string | TypeError string | RuntimeError string | OtherError string

section \<open>The operating system as the code sees it\<close>

text \<open>
  The functions of \<open>os\<close>, \<open>os.path\<close> and \<open>platform\<close> that the source calls, over a
  state \<open>'w\<close> of the machine. They are parameters of the model: every theorem below holds
  for whatever these calls answer. A failing \<open>stat\<close>, \<open>chmod\<close> or \<open>scandir\<close> raises
  and leaves the state as it was. A \<open>dir_entry\<close> is an \<open>os.DirEntry\<close>: its
  \<open>name\<close> and \<open>path\<close> and the answers of \<open>is_file()\<close> and \<open>is_dir()\<close>.
\<close>

record dir_entry =
  entry_name :: string
  entry_path :: string
  entry_is_file :: bool
  entry_is_dir :: bool

record 'w os_api =
  path_exists :: "'w \<Rightarrow> string \<Rightarrow> bool"
  access_w_ok :: "'w \<Rightarrow> string \<Rightarrow> bool"
  stat_st_mode :: "'w \<Rightarrow> string \<Rightarrow> error + nat"
  chmod :: "'w \<Rightarrow> string \<Rightarrow> nat \<Rightarrow> error + 'w"
  platform_system :: string
  scandir :: "'w \<Rightarrow> string \<Rightarrow> error + dir_entry list"
  normpath :: "string \<Rightarrow> string"

definition S_IWUSR :: nat where "S_IWUSR = 128"
definition S_IWGRP :: nat where "S_IWGRP = 16"
definition S_IWOTH :: nat where "S_IWOTH = 2"
definition S_IWRITE :: nat where "S_IWRITE = 128"

section \<open>File status classifier\<close>

text \<open>\<open>BatchScriptExecutionAccessEntry.check_file_status\<close>.\<close>

definition check_file_status :: "'w os_api \<Rightarrow> 'w \<Rightarrow> string \<Rightarrow> FileStatus" where
  "check_file_status os w p =
     (if path_exists os w p then
        (if access_w_ok os w p then writable else read_only)
      else does_not_exist)"

text \<open>\<open>PendingFile.__init__\<close>.\<close>

definition PendingFile :: "'w os_api \<Rightarrow> 'w \<Rightarrow> string \<Rightarrow> pending_file" where
  "PendingFile os w p =
     \<lparr>path = p, file_name = None, status = check_file_status os w p,
      result = None, warning = None\<rparr>"

section \<open>Access entry operations\<close>

text \<open>
  The operations of \<open>BatchScriptExecutionAccessEntry\<close> act on the entry's \<open>file\<close>, a
  \<open>PendingFile\<close>; the model passes that record and the machine state and returns what
  changed. Widget updates (\<open>refresh_ui\<close>, \<open>update_continue_button\<close>) and \<open>print\<close>
  touch neither and are left out.
\<close>

text \<open>
  \<open>BatchScriptExecutionAccessEntry.__init__\<close> fills in a missing \<open>file_name\<close> with
  \<^verbatim>\<open>file.path.split("/")[-1]\<close>.
\<close>

definition access_entry_init :: "pending_file \<Rightarrow> pending_file" where
  "access_entry_init f =
     (case file_name f of
        None \<Rightarrow> f\<lparr>file_name := Some (rev (takeWhile (\<lambda>c. c \<noteq> CHR ''/'') (rev (path f))))\<rparr>
      | Some n \<Rightarrow> f)"

definition refresh :: "'w os_api \<Rightarrow> 'w \<Rightarrow> pending_file \<Rightarrow> pending_file" where
  "refresh os w f =
     f\<lparr>status := (if status f = skip then skip else check_file_status os w (path f))\<rparr>"

text \<open>\<open>skip_file\<close> assigns the status and then calls \<open>refresh\<close>.\<close>

definition skip_file :: "'w os_api \<Rightarrow> 'w \<Rightarrow> pending_file \<Rightarrow> pending_file" where
  "skip_file os w f =
     refresh os w
       (f\<lparr>status := (if status f \<noteq> skip then skip else check_file_status os w (path f))\<rparr>)"

definition is_unix :: "'w os_api \<Rightarrow> error + bool" where
  "is_unix os =
     (let os_name = platform_system os in
      if os_name = ''Windows'' then Inr False
      else if os_name = ''Linux'' \<or> os_name = ''Darwin'' then Inr True
      else Inl (RuntimeError (''OS for platform '' @ os_name @ '' cannot be determined.'')))"

text \<open>
  \<open>cmds.error\<close> raises in the host; \<open>except OSError\<close> catches that class only, any
  other exception of \<open>stat\<close> or \<open>chmod\<close> passes through.
\<close>

definition cmds_error :: "string \<Rightarrow> error \<Rightarrow> error + 'a" where
  "cmds_error msg e = Inl (RuntimeError msg)"

definition on_OSError :: "string \<Rightarrow> error + 'a \<Rightarrow> error + 'a" where
  "on_OSError msg r =
     (case r of
        Inl (OSError m) \<Rightarrow> cmds_error msg (OSError m)
      | Inl e \<Rightarrow> Inl e
      | Inr v \<Rightarrow> Inr v)"

definition stat_then_chmod :: "'w os_api \<Rightarrow> 'w \<Rightarrow> string \<Rightarrow> nat \<Rightarrow> error + 'w" where
  "stat_then_chmod os w p bits =
     (case stat_st_mode os w p of
        Inl e \<Rightarrow> Inl e
      | Inr m \<Rightarrow> chmod os w p (m OR bits))"

definition make_file_writable :: "'w os_api \<Rightarrow> 'w \<Rightarrow> string \<Rightarrow> error + 'w" where
  "make_file_writable os w p =
     (case is_unix os of
        Inl e \<Rightarrow> Inl e
      | Inr True \<Rightarrow>
          on_OSError ''Error adding write permissions:''
            (stat_then_chmod os w p (S_IWUSR OR S_IWGRP OR S_IWOTH))
      | Inr False \<Rightarrow>
          on_OSError ''Error removing read-only attribute:''
            (stat_then_chmod os w p S_IWRITE))"

definition make_writable :: "'w os_api \<Rightarrow> 'w \<Rightarrow> pending_file \<Rightarrow> error + ('w \<times> pending_file)" where
  "make_writable os w f =
     (if check_file_status os w (path f) = read_only then
        (case make_file_writable os w (path f) of
           Inl e \<Rightarrow> Inl e
         | Inr w' \<Rightarrow> Inr (w', refresh os w' f))
      else Inr (w, f))"

section \<open>Access handler\<close>

text \<open>
  \<open>BatchScriptExecutionAccessHandler.files\<close> is the dict that \<open>execute_script\<close> builds,
  from each path to its \<open>PendingFile\<close>. Python dicts keep insertion order; the model is
  an association list in that order.
\<close>

type_synonym pending_files = "(string \<times> pending_file) list"

fun dict_set :: "('k \<times> 'v) list \<Rightarrow> 'k \<Rightarrow> 'v \<Rightarrow> ('k \<times> 'v) list" where
  "dict_set [] k v = [(k, v)]"
| "dict_set ((k', v') # d) k v = (if k' = k then (k', v) # d else (k', v') # dict_set d k v)"

text \<open>
  \<^verbatim>\<open>for file_path in maya_files: pending_files[file_path] = PendingFile(file_path)\<close>
\<close>

definition build_pending_files :: "'w os_api \<Rightarrow> 'w \<Rightarrow> string list \<Rightarrow> pending_files" where
  "build_pending_files os w maya_files =
     foldl (\<lambda>d file_path. dict_set d file_path (PendingFile os w file_path)) [] maya_files"

fun can_continue :: "pending_files \<Rightarrow> bool" where
  "can_continue [] = True"
| "can_continue ((scene, file) # rest) =
     (if status file = read_only then False else can_continue rest)"

text \<open>
  The version-control side of \<open>checkout_file\<close>: whether the \<open>P4\<close> module imports, and
  \<open>checkout_file_perforce\<close>, whose boolean answer the caller drops. It returns the machine
  state it leaves and the exception that escaped it, if any.
\<close>

record 'w p4_api =
  has_perforce_installed :: bool
  checkout_file_perforce :: "'w \<Rightarrow> string \<Rightarrow> 'w \<times> error option"

definition checkout_file ::
  "'w os_api \<Rightarrow> 'w p4_api \<Rightarrow> 'w \<Rightarrow> pending_file \<Rightarrow> 'w \<times> pending_file \<times> error option" where
  "checkout_file os p4 w f =
     (if \<not> has_perforce_installed p4 then (w, f, None)
      else if check_file_status os w (path f) = read_only then
        (case checkout_file_perforce p4 w (path f) of
           (w', Some e) \<Rightarrow> (w', f, Some e)
         | (w', None) \<Rightarrow> (w', refresh os w' f, None))
      else (w, f, None))"

text \<open>
  The two bulk buttons loop with
  \<^verbatim>\<open>for scene, files in self.files.items(): for file in files: ...\<close>
  where \<open>files\<close> is the dict's value, one \<open>PendingFile\<close>. The class defines neither
  \<open>__iter__\<close> nor \<open>__getitem__\<close>, so the inner \<open>for\<close> raises \<open>TypeError\<close> at the
  first item, before any entry is touched (\<open>0x27\<close> is the quote of Python's message). On an empty dict the outer loop does nothing;
  \<open>press_checkout_button\<close> then calls \<open>press_refresh_button\<close>.
\<close>

definition iterate_pending_file :: "pending_file \<Rightarrow> error" where
  "iterate_pending_file files =
     TypeError (CHR 0x27 # ''PendingFile'' @ CHR 0x27 # '' object is not iterable'')"

fun press_refresh_button :: "'w os_api \<Rightarrow> 'w \<Rightarrow> pending_files \<Rightarrow> error + pending_files" where
  "press_refresh_button os w [] = Inr []"
| "press_refresh_button os w ((scene, files) # rest) = Inl (iterate_pending_file files)"

fun press_checkout_button ::
  "'w os_api \<Rightarrow> 'w p4_api \<Rightarrow> 'w \<Rightarrow> pending_files \<Rightarrow> error + ('w \<times> pending_files)" where
  "press_checkout_button os p4 w [] =
     (case press_refresh_button os w [] of Inl e \<Rightarrow> Inl e | Inr d \<Rightarrow> Inr (w, d))"
| "press_checkout_button os p4 w ((scene, files) # rest) = Inl (iterate_pending_file files)"

text \<open>
  What the specification asks of the bulk operations, in its own words: apply \<open>refresh\<close>
  (\<open>checkout\<close>) to every entry of the collection, in order.
\<close>

definition refreshAll_spec :: "'w os_api \<Rightarrow> 'w \<Rightarrow> pending_files \<Rightarrow> pending_files" where
  "refreshAll_spec os w d = map (\<lambda>(scene, file). (scene, refresh os w file)) d"

fun checkoutAll_spec ::
  "'w os_api \<Rightarrow> 'w p4_api \<Rightarrow> 'w \<Rightarrow> pending_files \<Rightarrow> 'w \<times> pending_files \<times> error option" where
  "checkoutAll_spec os p4 w [] = (w, [], None)"
| "checkoutAll_spec os p4 w ((scene, file) # rest) =
     (case checkout_file os p4 w file of
        (w', file', Some e) \<Rightarrow> (w', (scene, file') # rest, Some e)
      | (w', file', None) \<Rightarrow>
          (case checkoutAll_spec os p4 w' rest of
             (w'', rest', r) \<Rightarrow> (w'', (scene, file') # rest', r)))"

section \<open>Directory scanner\<close>

text \<open>Python's \<open>str.startswith\<close>, \<open>str.endswith\<close>, \<open>in\<close> on strings and \<open>str.split\<close>.\<close>

definition startswith :: "string \<Rightarrow> string \<Rightarrow> bool" where
  "startswith s pre = (take (length pre) s = pre)"

definition endswith :: "string \<Rightarrow> string \<Rightarrow> bool" where
  "endswith s suf = (length suf \<le> length s \<and> drop (length s - length suf) s = suf)"

fun contains :: "string \<Rightarrow> string \<Rightarrow> bool" where
  "contains sub [] = (sub = [])"
| "contains sub (c # cs) = (startswith (c # cs) sub \<or> contains sub cs)"

fun split_char :: "char \<Rightarrow> string \<Rightarrow> string list" where
  "split_char sep [] = [[]]"
| "split_char sep (c # cs) =
     (if c = sep then [] # split_char sep cs
      else (case split_char sep cs of
              [] \<Rightarrow> [[c]]
            | piece # pieces \<Rightarrow> (c # piece) # pieces))"

text \<open>\<^verbatim>\<open>os.path.normpath(entry.path).replace('\\', '/')\<close>; \<open>0x5C\<close> is the backslash.\<close>

definition normalized_path :: "'w os_api \<Rightarrow> string \<Rightarrow> string" where
  "normalized_path os p = map (\<lambda>c. if c = CHR 0x5C then CHR ''/'' else c) (normpath os p)"

definition is_maya_file :: "dir_entry \<Rightarrow> bool" where
  "is_maya_file entry =
     (entry_is_file entry \<and>
      (endswith (entry_name entry) ''.mb'' \<or> endswith (entry_name entry) ''.ma''))"

text \<open>
  An exception in a loop over results ends the loop at the first one: \<open>gather_all\<close> is the
  concatenation of the results up to the first error, which it returns instead.
\<close>

fun gather_all :: "(error + 'a list) list \<Rightarrow> error + 'a list" where
  "gather_all [] = Inr []"
| "gather_all (r # rs) =
     (case r of
        Inl e \<Rightarrow> Inl e
      | Inr xs \<Rightarrow> (case gather_all rs of Inl e \<Rightarrow> Inl e | Inr ys \<Rightarrow> Inr (xs @ ys)))"

function do_gather_maya_files :: "'w os_api \<Rightarrow> 'w \<Rightarrow> string \<Rightarrow> int \<Rightarrow> error + string list" where
  "do_gather_maya_files os w directory recursion_depth =
     (if recursion_depth < 0 then Inr []
      else
        (case scandir os w directory of
           Inl e \<Rightarrow> Inl e
         | Inr entries \<Rightarrow>
             (let maya_files = map (\<lambda>entry. normalized_path os (entry_path entry))
                                 (filter is_maya_file entries)
              in if recursion_depth > 0 then
                   (case scandir os w directory of
                      Inl e \<Rightarrow> Inl e
                    | Inr entries' \<Rightarrow>
                        gather_all
                          (Inr maya_files #
                           map (\<lambda>entry. do_gather_maya_files os w
                                           (normalized_path os (entry_path entry))
                                           (recursion_depth - 1))
                             (filter entry_is_dir entries')))
                 else Inr maya_files)))"
  by pat_completeness auto
termination
  by (relation "measure (\<lambda>(os, w, directory, recursion_depth). nat recursion_depth)") auto

declare do_gather_maya_files.simps [simp del]

text \<open>
  For stating what a scan reaches: the subdirectories a scan of \<open>d\<close> descends into, and
  the directories within \<open>k\<close> hops of \<open>d\<close> in the order the scan visits them.
\<close>

definition subdirectories :: "'w os_api \<Rightarrow> 'w \<Rightarrow> string \<Rightarrow> string list" where
  "subdirectories os w d =
     (case scandir os w d of
        Inl e \<Rightarrow> []
      | Inr entries \<Rightarrow>
          map (\<lambda>entry. normalized_path os (entry_path entry)) (filter entry_is_dir entries))"

fun dirs_within :: "'w os_api \<Rightarrow> 'w \<Rightarrow> string \<Rightarrow> nat \<Rightarrow> string list" where
  "dirs_within os w d 0 = [d]"
| "dirs_within os w d (Suc k) =
     d # concat (map (\<lambda>s. dirs_within os w s k) (subdirectories os w d))"

definition files_of :: "error + string list \<Rightarrow> string set" where
  "files_of r = (case r of Inl e \<Rightarrow> {} | Inr fs \<Rightarrow> set fs)"

section \<open>Filter stage\<close>

text \<open>
  \<open>os.path.basename\<close> on a scanned path, whose separators are all \<open>/\<close>: what follows
  the last one.
\<close>

definition basename :: "string \<Rightarrow> string" where
  "basename p = rev (takeWhile (\<lambda>c. c \<noteq> CHR ''/'') (rev p))"

text \<open>
  The text of the file-type field: when not empty, blanks are removed and it is split at
  commas; an empty text stays the empty string, which \<open>if file_type\<close> takes as false
  (\<open>None\<close> here).
\<close>

definition parse_file_type :: "string \<Rightarrow> string list option" where
  "parse_file_type text =
     (if text \<noteq> [] then Some (split_char CHR '','' (filter (\<lambda>c. c \<noteq> CHR '' '') text))
      else None)"

text \<open>
  The body of the filter loop for one file, naming the \<open>continue\<close> it leaves by. The first
  two also append the file to \<open>removed_files\<close>.
\<close>

datatype verdict =
  removed_by_prefix | removed_by_suffix | dropped_by_filter_string | dropped_by_file_type | kept

definition filter_file ::
  "string \<Rightarrow> string \<Rightarrow> string \<Rightarrow> string list option \<Rightarrow> string \<Rightarrow> verdict" where
  "filter_file prefix suffix filter_string file_type file =
     (let file_name = basename file;
          file_extension = last (split_char CHR ''.'' file_name);
          file_name = hd (split_char CHR ''.'' file_name)
      in if prefix \<noteq> [] \<and> startswith file_name prefix then removed_by_prefix
         else if suffix \<noteq> [] \<and> endswith file_name suffix then removed_by_suffix
         else if filter_string \<noteq> [] \<and> contains filter_string file_name
           then dropped_by_filter_string
         else if (case file_type of None \<Rightarrow> False | Some types \<Rightarrow> file_extension \<notin> set types)
           then dropped_by_file_type
         else kept)"

fun filter_files ::
  "string \<Rightarrow> string \<Rightarrow> string \<Rightarrow> string list option \<Rightarrow> string list
     \<Rightarrow> string list \<times> string list" where
  "filter_files prefix suffix filter_string file_type [] = ([], [])"
| "filter_files prefix suffix filter_string file_type (file # maya_files) =
     (case filter_files prefix suffix filter_string file_type maya_files of
        (filtered_files, removed_files) \<Rightarrow>
          (case filter_file prefix suffix filter_string file_type file of
             kept \<Rightarrow> (file # filtered_files, removed_files)
           | removed_by_prefix \<Rightarrow> (filtered_files, file # removed_files)
           | removed_by_suffix \<Rightarrow> (filtered_files, file # removed_files)
           | _ \<Rightarrow> (filtered_files, removed_files)))"

text \<open>
  The specification's words for the suffix filter: the basename minus its extension, the
  extension being what follows the last dot (the source's \<open>file_extension\<close>).
\<close>

definition basename_minus_extension_spec :: "string \<Rightarrow> string" where
  "basename_minus_extension_spec file =
     (let b = basename file
      in if CHR ''.'' \<in> set b then rev (tl (dropWhile (\<lambda>c. c \<noteq> CHR ''.'') (rev b))) else b)"

section \<open>Batch executor\<close>

text \<open>
  The host's document functions and the two ways of running the user's command. Each
  returns the machine state it leaves and the exception it raised, if any: a script that
  raises may already have changed the document or the disk.

  The command runs as \<^verbatim>\<open>exec(command, globals(), locals())\<close>: it is handed
  \<open>file\<close>, \<open>pending_file\<close>, \<open>handler\<close> and \<open>pending_files\<close>, so it may change any
  record of the collection, or the collection itself, before it returns or raises. The two
  script functions therefore take the key of the current file and the collection and return
  the collection they leave (a MEL command can reach Python through \<open>python\<close>).
\<close>

record 'w maya_api =
  file_open :: "'w \<Rightarrow> string \<Rightarrow> 'w \<times> error option"
  exec_python ::
    "string \<Rightarrow> string \<Rightarrow> pending_files \<Rightarrow> 'w \<Rightarrow> pending_files \<times> 'w \<times> error option"
  mel_eval ::
    "string \<Rightarrow> string \<Rightarrow> pending_files \<Rightarrow> 'w \<Rightarrow> pending_files \<times> 'w \<times> error option"
  file_save :: "'w \<Rightarrow> 'w \<times> error option"
  file_new :: "'w \<Rightarrow> 'w \<times> error option"

definition status_str :: "FileStatus \<Rightarrow> string" where
  "status_str s =
     (case s of
        does_not_exist \<Rightarrow> ''FileStatus.does_not_exist''
      | writable \<Rightarrow> ''FileStatus.writable''
      | read_only \<Rightarrow> ''FileStatus.read_only''
      | skip \<Rightarrow> ''FileStatus.skip'')"

text \<open>
  One pass of the loop \<^verbatim>\<open>for file, pending_file in handler.files.items()\<close> of
  \<open>execute_script\<close>, at position \<open>i\<close> of the collection \<open>files\<close> (the loop calls it
  only for \<open>i < length files\<close>). It returns the collection and the machine state it
  leaves. Nothing in the loop catches an exception.
\<close>

definition process_file ::
  "'w os_api \<Rightarrow> 'w maya_api \<Rightarrow> string \<Rightarrow> string \<Rightarrow> bool \<Rightarrow> nat \<Rightarrow> pending_files \<Rightarrow> 'w
     \<Rightarrow> pending_files \<times> 'w \<times> error option" where
  "process_file os maya command_type command wants_save i files w =
     (case files ! i of
        (file, pending_file) \<Rightarrow>
          (if status pending_file \<noteq> writable then
             (files[i := (file, pending_file
                \<lparr>result :=
                   (if status pending_file = skip then Some file_skipped
                    else if status pending_file = does_not_exist then Some file_not_found
                    else if status pending_file = read_only then Some file_read_only
                    else result pending_file),
                 warning :=
                   Some (''File could not be processed due to file state: ''
                         @ status_str (status pending_file))\<rparr>)],
              w, None)
           else if check_file_status os w file \<noteq> writable then
             (let tampered_missing = \<not> path_exists os w file
              in (files[i := (file, pending_file
                    \<lparr>result := Some (if tampered_missing then file_missing
                                      else file_tampered)\<rparr>)],
                  w, None))
           else
             (case file_open maya w file of
                (w1, Some e) \<Rightarrow> (files, w1, Some e)
              | (w1, None) \<Rightarrow>
                  (case (if command_type = ''python''
                         then exec_python maya command file files w1
                         else mel_eval maya command file files w1) of
                     (files', w2, Some e) \<Rightarrow> (files', w2, Some e)
                   | (files', w2, None) \<Rightarrow>
                       (if wants_save then
                          (case file_save maya w2 of (w3, r) \<Rightarrow> (files', w3, r))
                        else (files', w2, None))))))"

text \<open>
  The loop over positions \<open>i, i + 1, \<dots>\<close> below \<open>n\<close>. Each step reads the record the
  collection holds at that moment. When a script has left the collection with another
  number of entries, the next step of the dict iterator raises \<open>RuntimeError\<close>; a script
  that deletes and inserts as many keys is followed by position.
\<close>

function execute_range ::
  "'w os_api \<Rightarrow> 'w maya_api \<Rightarrow> string \<Rightarrow> string \<Rightarrow> bool \<Rightarrow> nat \<Rightarrow> nat \<Rightarrow> pending_files \<Rightarrow> 'w
     \<Rightarrow> pending_files \<times> 'w \<times> error option" where
  "execute_range os maya command_type command wants_save i n files w =
     (if n \<le> i \<or> length files \<le> i then (files, w, None)
      else
        (case process_file os maya command_type command wants_save i files w of
           (files', w', Some e) \<Rightarrow> (files', w', Some e)
         | (files', w', None) \<Rightarrow>
             (if length files' \<noteq> length files then
                (files', w', Some (RuntimeError ''dictionary changed size during iteration''))
              else execute_range os maya command_type command wants_save (Suc i) n files' w')))"
  by pat_completeness auto
termination
  by (relation "measure (\<lambda>(os, maya, command_type, command, wants_save, i, n, files, w). n - i)")
     auto

declare execute_range.simps [simp del]

definition execute_files ::
  "'w os_api \<Rightarrow> 'w maya_api \<Rightarrow> string \<Rightarrow> string \<Rightarrow> bool \<Rightarrow> pending_files \<Rightarrow> 'w
     \<Rightarrow> pending_files \<times> 'w \<times> error option" where
  "execute_files os maya command_type command wants_save files w =
     execute_range os maya command_type command wants_save 0 (length files) files w"

text \<open>
  The end of \<open>execute_script\<close>, from the loop on: after the loop the scene is reset with
  \<^verbatim>\<open>cmds.file(new=True, force=True)\<close>, which an exception in the loop skips.
\<close>

definition execute_confirmed ::
  "'w os_api \<Rightarrow> 'w maya_api \<Rightarrow> string \<Rightarrow> string \<Rightarrow> bool \<Rightarrow> pending_files \<Rightarrow> 'w
     \<Rightarrow> pending_files \<times> 'w \<times> error option" where
  "execute_confirmed os maya command_type command wants_save files w =
     (case execute_files os maya command_type command wants_save files w of
        (files', w', Some e) \<Rightarrow> (files', w', Some e)
      | (files', w', None) \<Rightarrow> (case file_new maya w' of (w'', r) \<Rightarrow> (files', w'', r)))"

section \<open>A small concrete machine\<close>

text \<open>
  A machine state for running the model on explicit inputs: the mode bits of the files that
  exist, the listing of each directory, and the documents the host has opened so far. The
  process owns every file, so it may write where the owner's write bit is set.
\<close>

record sim_world =
  sim_modes :: "(string \<times> nat) list"
  sim_dirs :: "(string \<times> dir_entry list) list"
  sim_opened :: "string list"

definition sim_chmod :: "sim_world \<Rightarrow> string \<Rightarrow> nat \<Rightarrow> error + sim_world" where
  "sim_chmod w p m =
     (case map_of (sim_modes w) p of
        None \<Rightarrow> Inl (OSError ''No such file or directory'')
      | Some _ \<Rightarrow> Inr (w\<lparr>sim_modes := (p, m) # sim_modes w\<rparr>))"

definition sim_os :: "string \<Rightarrow> sim_world os_api" where
  "sim_os system =
     \<lparr>path_exists = (\<lambda>w p. map_of (sim_modes w) p \<noteq> None),
      access_w_ok = (\<lambda>w p. case map_of (sim_modes w) p of
                              None \<Rightarrow> False
                            | Some m \<Rightarrow> (m div 128) mod 2 = 1),
      stat_st_mode = (\<lambda>w p. case map_of (sim_modes w) p of
                               None \<Rightarrow> Inl (OSError ''No such file or directory'')
                             | Some m \<Rightarrow> Inr m),
      chmod = sim_chmod,
      platform_system = system,
      scandir = (\<lambda>w d. case map_of (sim_dirs w) d of
                          None \<Rightarrow> Inl (OSError ''No such file or directory'')
                        | Some es \<Rightarrow> Inr es),
      normpath = (\<lambda>p. p)\<rparr>"

text \<open>
  A project directory with a writable scene, a read-only scene, a scene whose name has two
  dots, and one subdirectory holding a further scene. \<open>420\<close> is mode \<open>0o644\<close>,
  \<open>292\<close> is \<open>0o444\<close>.
\<close>

definition example_world :: sim_world where
  "example_world =
     \<lparr>sim_modes = [(''/proj/a.ma'', 420), (''/proj/b.mb'', 292),
                   (''/proj/hero.rig_bak.mb'', 420), (''/proj/sub/c.ma'', 420)],
      sim_dirs =
        [(''/proj'',
           [\<lparr>entry_name = ''a.ma'', entry_path = ''/proj/a.ma'',
              entry_is_file = True, entry_is_dir = False\<rparr>,
            \<lparr>entry_name = ''sub'', entry_path = ''/proj/sub'',
              entry_is_file = False, entry_is_dir = True\<rparr>,
            \<lparr>entry_name = ''b.mb'', entry_path = ''/proj/b.mb'',
              entry_is_file = True, entry_is_dir = False\<rparr>,
            \<lparr>entry_name = ''notes.txt'', entry_path = ''/proj/notes.txt'',
              entry_is_file = True, entry_is_dir = False\<rparr>,
            \<lparr>entry_name = ''hero.rig_bak.mb'', entry_path = ''/proj/hero.rig_bak.mb'',
              entry_is_file = True, entry_is_dir = False\<rparr>]),
         (''/proj/sub'',
           [\<lparr>entry_name = ''c.ma'', entry_path = ''/proj/sub/c.ma'',
              entry_is_file = True, entry_is_dir = False\<rparr>,
            \<lparr>entry_name = ''deep'', entry_path = ''/proj/sub/deep'',
              entry_is_file = False, entry_is_dir = True\<rparr>]),
         (''/proj/sub/deep'',
           [\<lparr>entry_name = ''d.mb'', entry_path = ''/proj/sub/deep/d.mb'',
              entry_is_file = True, entry_is_dir = False\<rparr>])],
      sim_opened = []\<rparr>"

text \<open>A record as \<open>PendingFile.__init__\<close> leaves it, with a given status.\<close>

definition pending :: "string \<Rightarrow> FileStatus \<Rightarrow> pending_file" where
  "pending p st = \<lparr>path = p, file_name = None, status = st, result = None, warning = None\<rparr>"

text \<open>
  A host that logs each document it opens, and in which the user's command raises while
  one of the documents in \<open>bad\<close> is open and leaves the collection alone.
\<close>

definition sim_maya :: "string list \<Rightarrow> sim_world maya_api" where
  "sim_maya bad =
     \<lparr>file_open = (\<lambda>w p. (w\<lparr>sim_opened := sim_opened w @ [p]\<rparr>, None)),
      exec_python = (\<lambda>command file files w.
         (files, w, if sim_opened w \<noteq> [] \<and> last (sim_opened w) \<in> set bad
                    then Some (OtherError ''script failed'') else None)),
      mel_eval = (\<lambda>command file files w.
         (files, w, if sim_opened w \<noteq> [] \<and> last (sim_opened w) \<in> set bad
                    then Some (RuntimeError ''script failed'') else None)),
      file_save = (\<lambda>w. (w, None)),
      file_new = (\<lambda>w. (w, None))\<rparr>"

definition sim_p4 :: "sim_world p4_api" where
  "sim_p4 =
     \<lparr>has_perforce_installed = True,
      checkout_file_perforce = (\<lambda>w p.
         (case sim_chmod w p 420 of Inl e \<Rightarrow> (w, None) | Inr w' \<Rightarrow> (w', None)))\<rparr>"

section \<open>Properties of the classifier and of the entry operations\<close>

lemma check_file_status_cases:
  "check_file_status os w p = does_not_exist \<longleftrightarrow> \<not> path_exists os w p"
  "check_file_status os w p = writable \<longleftrightarrow> path_exists os w p \<and> access_w_ok os w p"
  "check_file_status os w p = read_only \<longleftrightarrow> path_exists os w p \<and> \<not> access_w_ok os w p"
  "check_file_status os w p \<noteq> skip"
  by (simp_all add: check_file_status_def)

text \<open>
  C7. \<open>check_file_status\<close> is a total function of the path and the machine state, which
  it only reads: it answers \<open>does_not_exist\<close> for a path that does not exist (no
  exception), \<open>writable\<close> for one that exists and may be written, and \<open>read_only\<close>
  for one that exists and may not be written.
\<close>

theorem check_file_status_total:
  "(\<not> path_exists os w p \<longrightarrow> check_file_status os w p = does_not_exist) \<and>
   (path_exists os w p \<and> access_w_ok os w p \<longrightarrow> check_file_status os w p = writable) \<and>
   (path_exists os w p \<and> \<not> access_w_ok os w p \<longrightarrow> check_file_status os w p = read_only)"
  by (simp add: check_file_status_def)

theorem check_file_status_total_witness:
  "\<not> path_exists (sim_os ''Linux'') example_world ''/proj/gone.ma'' \<and>
   check_file_status (sim_os ''Linux'') example_world ''/proj/gone.ma'' = does_not_exist \<and>
   path_exists (sim_os ''Linux'') example_world ''/proj/a.ma'' \<and>
   access_w_ok (sim_os ''Linux'') example_world ''/proj/a.ma'' \<and>
   check_file_status (sim_os ''Linux'') example_world ''/proj/a.ma'' = writable \<and>
   path_exists (sim_os ''Linux'') example_world ''/proj/b.mb'' \<and>
   \<not> access_w_ok (sim_os ''Linux'') example_world ''/proj/b.mb'' \<and>
   check_file_status (sim_os ''Linux'') example_world ''/proj/b.mb'' = read_only"
  using check_file_status_total [of "sim_os ''Linux''" example_world "''/proj/gone.ma''"]
    check_file_status_total [of "sim_os ''Linux''" example_world "''/proj/a.ma''"]
    check_file_status_total [of "sim_os ''Linux''" example_world "''/proj/b.mb''"]
  by (simp add: sim_os_def example_world_def)

text \<open>
  C8. \<open>refresh\<close> leaves a file whose status is \<open>skip\<close> as it is, whatever the
  filesystem says; for any other status it sets the status to a fresh classification of the
  path. A refresh never clears a skip (and never introduces one).
\<close>

theorem refresh_skip_sticky:
  "(status f = skip \<longrightarrow> refresh os w f = f) \<and>
   (status f \<noteq> skip \<longrightarrow>
      refresh os w f = f\<lparr>status := check_file_status os w (path f)\<rparr>) \<and>
   (status (refresh os w f) = skip \<longleftrightarrow> status f = skip)"
  by (simp add: refresh_def check_file_status_cases)

theorem refresh_skip_sticky_witness:
  "refresh (sim_os ''Linux'') example_world
     \<lparr>path = ''/proj/gone.ma'', file_name = None, status = skip,
      result = None, warning = None\<rparr>
   = \<lparr>path = ''/proj/gone.ma'', file_name = None, status = skip,
      result = None, warning = None\<rparr> \<and>
   refresh (sim_os ''Linux'') example_world
     \<lparr>path = ''/proj/b.mb'', file_name = None, status = writable,
      result = None, warning = None\<rparr>
   = \<lparr>path = ''/proj/b.mb'', file_name = None, status = read_only,
      result = None, warning = None\<rparr>"
  using refresh_skip_sticky [of "\<lparr>path = ''/proj/gone.ma'', file_name = None, status = skip,
      result = None, warning = None\<rparr>" "sim_os ''Linux''" example_world]
    refresh_skip_sticky [of "\<lparr>path = ''/proj/b.mb'', file_name = None, status = writable,
      result = None, warning = None\<rparr>" "sim_os ''Linux''" example_world]
  by (simp add: sim_os_def example_world_def check_file_status_def)

text \<open>
  C9. \<open>skip_file\<close> sets the status to \<open>skip\<close> when it is not \<open>skip\<close>, and to a
  fresh classification of the path when it is. Two consecutive calls on a file that was not
  skipped leave it at the classification of its path; so when the filesystem did not change
  and the file carried its classification, the two calls give the file back unchanged.
\<close>

theorem skip_file_toggle:
  "skip_file os w f =
     f\<lparr>status := (if status f \<noteq> skip then skip else check_file_status os w (path f))\<rparr> \<and>
   (status f \<noteq> skip \<longrightarrow>
      skip_file os w' (skip_file os w f) = f\<lparr>status := check_file_status os w' (path f)\<rparr>) \<and>
   (status f = check_file_status os w (path f) \<and>
    check_file_status os w' (path f) = check_file_status os w (path f) \<longrightarrow>
      skip_file os w' (skip_file os w f) = f)"
  by (simp add: skip_file_def refresh_def check_file_status_cases)

theorem skip_file_toggle_witness:
  "skip_file (sim_os ''Linux'') example_world
     (skip_file (sim_os ''Linux'') example_world
        \<lparr>path = ''/proj/b.mb'', file_name = None, status = read_only,
         result = None, warning = None\<rparr>)
   = \<lparr>path = ''/proj/b.mb'', file_name = None, status = read_only,
      result = None, warning = None\<rparr> \<and>
   status (skip_file (sim_os ''Linux'') example_world
        \<lparr>path = ''/proj/b.mb'', file_name = None, status = read_only,
         result = None, warning = None\<rparr>) = skip"
  using skip_file_toggle [of "sim_os ''Linux''" example_world
      "\<lparr>path = ''/proj/b.mb'', file_name = None, status = read_only,
         result = None, warning = None\<rparr>" example_world]
  by (simp add: sim_os_def example_world_def check_file_status_def skip_file_def refresh_def)

text \<open>
  C10. \<open>make_writable\<close> changes permissions only when a fresh classification of the path
  is \<open>read_only\<close>. For a path that classifies as \<open>writable\<close> or \<open>does_not_exist\<close>
  it returns normally with the machine state and the file record unchanged, whatever
  \<open>stat\<close>, \<open>chmod\<close> and \<open>platform.system\<close> would have answered: none of them is
  called, so no \<open>chmod\<close> of a missing path is attempted and the \<open>except OSError\<close>
  branch is not reached.
\<close>

theorem make_writable_only_read_only:
  "check_file_status os w (path f) \<noteq> read_only \<Longrightarrow>
   make_writable (os\<lparr>stat_st_mode := st, chmod := ch, platform_system := pl\<rparr>) w f = Inr (w, f)"
  by (auto simp add: make_writable_def check_file_status_def split: if_splits)

theorem make_writable_only_read_only_witness:
  "check_file_status (sim_os ''Linux'') example_world ''/proj/gone.ma'' \<noteq> read_only \<and>
   make_writable
     ((sim_os ''Linux'')\<lparr>stat_st_mode := (\<lambda>w p. Inl (OSError ''stat'')),
        chmod := (\<lambda>w p m. Inl (OSError ''chmod'')), platform_system := ''Java''\<rparr>)
     example_world
     \<lparr>path = ''/proj/gone.ma'', file_name = None, status = read_only,
      result = None, warning = None\<rparr>
   = Inr (example_world,
      \<lparr>path = ''/proj/gone.ma'', file_name = None, status = read_only,
       result = None, warning = None\<rparr>)"
  using make_writable_only_read_only [where os = "sim_os ''Linux''" and w = example_world
      and f = "\<lparr>path = ''/proj/gone.ma'', file_name = None, status = read_only,
        result = None, warning = None\<rparr>"
      and st = "\<lambda>w p. Inl (OSError ''stat'')" and ch = "\<lambda>w p m. Inl (OSError ''chmod'')"
      and pl = "''Java''"]
  by (simp add: sim_os_def example_world_def check_file_status_def)

section \<open>Properties of the access handler\<close>

lemma can_continue_set:
  "can_continue d \<longleftrightarrow> read_only \<notin> status ` snd ` set d"
  by (induction d rule: can_continue.induct) auto

text \<open>
  C3. \<open>can_continue\<close> is true exactly when no entry of the collection has status
  \<open>read_only\<close>; it is false exactly when some entry that is not skipped is
  \<open>read_only\<close>. A collection whose entries are all \<open>does_not_exist\<close>, or all
  \<open>writable\<close> or \<open>skip\<close>, may proceed.
\<close>

theorem can_continue_no_read_only:
  "(can_continue d \<longleftrightarrow> (\<forall>(scene, file) \<in> set d. status file \<noteq> read_only)) \<and>
   (\<not> can_continue d \<longleftrightarrow>
      (\<exists>(scene, file) \<in> set d. status file \<noteq> skip \<and> status file = read_only)) \<and>
   ((\<forall>(scene, file) \<in> set d. status file = does_not_exist) \<longrightarrow> can_continue d) \<and>
   ((\<forall>(scene, file) \<in> set d. status file = writable \<or> status file = skip)
      \<longrightarrow> can_continue d)"
  unfolding can_continue_set by (auto simp: image_iff) force+

theorem can_continue_no_read_only_witness:
  "\<not> can_continue
       [(''/proj/a.ma'', \<lparr>path = ''/proj/a.ma'', file_name = None, status = writable,
                          result = None, warning = None\<rparr>),
        (''/proj/b.mb'', \<lparr>path = ''/proj/b.mb'', file_name = None, status = read_only,
                          result = None, warning = None\<rparr>)] \<and>
   can_continue
       [(''/proj/a.ma'', \<lparr>path = ''/proj/a.ma'', file_name = None, status = writable,
                          result = None, warning = None\<rparr>),
        (''/proj/b.mb'', \<lparr>path = ''/proj/b.mb'', file_name = None, status = skip,
                          result = None, warning = None\<rparr>)] \<and>
   can_continue
       [(''/proj/gone.ma'', \<lparr>path = ''/proj/gone.ma'', file_name = None,
                             status = does_not_exist, result = None, warning = None\<rparr>)]"
  using can_continue_no_read_only
      [of "[(''/proj/a.ma'', \<lparr>path = ''/proj/a.ma'', file_name = None, status = writable,
                          result = None, warning = None\<rparr>),
        (''/proj/b.mb'', \<lparr>path = ''/proj/b.mb'', file_name = None, status = read_only,
                          result = None, warning = None\<rparr>)]"]
    can_continue_no_read_only
      [of "[(''/proj/a.ma'', \<lparr>path = ''/proj/a.ma'', file_name = None, status = writable,
                          result = None, warning = None\<rparr>),
        (''/proj/b.mb'', \<lparr>path = ''/proj/b.mb'', file_name = None, status = skip,
                          result = None, warning = None\<rparr>)]"]
    can_continue_no_read_only
      [of "[(''/proj/gone.ma'', \<lparr>path = ''/proj/gone.ma'', file_name = None,
                             status = does_not_exist, result = None, warning = None\<rparr>)]"]
  by simp

lemma press_refresh_button_raises:
  "d \<noteq> [] \<Longrightarrow> press_refresh_button os w d = Inl (TypeError (CHR 0x27 # ''PendingFile'' @ CHR 0x27 # '' object is not iterable''))"
  by (cases d) (auto simp: iterate_pending_file_def)

lemma press_checkout_button_raises:
  "d \<noteq> [] \<Longrightarrow>
   press_checkout_button os p4 w d = Inl (TypeError (CHR 0x27 # ''PendingFile'' @ CHR 0x27 # '' object is not iterable''))"
  by (cases d) (auto simp: iterate_pending_file_def)

text \<open>
  C4. The claim asks that the bulk operations apply \<open>refresh\<close> and \<open>checkout\<close> to every
  entry of a non-empty collection. On a collection of one stale entry \<open>refreshAll_spec\<close>
  and \<open>checkoutAll_spec\<close> update the entry, while \<open>press_refresh_button\<close> and
  \<open>press_checkout_button\<close> raise \<open>TypeError\<close> and change nothing.
\<close>

theorem bulk_buttons_raise:
  "press_refresh_button (sim_os ''Linux'') example_world
     [(''/proj/a.ma'', \<lparr>path = ''/proj/a.ma'', file_name = None, status = read_only,
                        result = None, warning = None\<rparr>)]
     = Inl (TypeError (CHR 0x27 # ''PendingFile'' @ CHR 0x27 # '' object is not iterable'')) \<and>
   refreshAll_spec (sim_os ''Linux'') example_world
     [(''/proj/a.ma'', \<lparr>path = ''/proj/a.ma'', file_name = None, status = read_only,
                        result = None, warning = None\<rparr>)]
     = [(''/proj/a.ma'', \<lparr>path = ''/proj/a.ma'', file_name = None, status = writable,
                          result = None, warning = None\<rparr>)] \<and>
   press_checkout_button (sim_os ''Linux'') sim_p4 example_world
     [(''/proj/b.mb'', \<lparr>path = ''/proj/b.mb'', file_name = None, status = read_only,
                        result = None, warning = None\<rparr>)]
     = Inl (TypeError (CHR 0x27 # ''PendingFile'' @ CHR 0x27 # '' object is not iterable'')) \<and>
   snd (checkoutAll_spec (sim_os ''Linux'') sim_p4 example_world
     [(''/proj/b.mb'', \<lparr>path = ''/proj/b.mb'', file_name = None, status = read_only,
                        result = None, warning = None\<rparr>)])
     = ([(''/proj/b.mb'', \<lparr>path = ''/proj/b.mb'', file_name = None, status = writable,
                           result = None, warning = None\<rparr>)], None)"
  by (simp add: iterate_pending_file_def refreshAll_spec_def refresh_def
        check_file_status_def checkout_file_def sim_os_def sim_p4_def sim_chmod_def
        example_world_def)

section \<open>Properties of the directory scanner\<close>

lemma gather_all_append:
  "gather_all (xs @ ys) =
     (case gather_all xs of Inl e \<Rightarrow> Inl e
      | Inr a \<Rightarrow> (case gather_all ys of Inl e \<Rightarrow> Inl e | Inr b \<Rightarrow> Inr (a @ b)))"
  by (induction xs) (auto split: sum.splits)

lemma gather_all_concat:
  "gather_all (map f (concat xss)) = gather_all (map (\<lambda>xs. gather_all (map f xs)) xss)"
  by (induction xss) (auto simp: gather_all_append split: sum.splits)

lemma gather_all_files_of:
  "gather_all rs = Inr fs \<Longrightarrow> set fs = (\<Union>r \<in> set rs. files_of r)"
  by (induction rs arbitrary: fs) (auto simp: files_of_def split: sum.splits)

lemma gather_neg: "n < 0 \<Longrightarrow> do_gather_maya_files os w d n = Inr []"
  by (subst do_gather_maya_files.simps) simp

lemma gather_zero:
  "do_gather_maya_files os w d 0 =
     (case scandir os w d of
        Inl e \<Rightarrow> Inl e
      | Inr entries \<Rightarrow>
          Inr (map (\<lambda>entry. normalized_path os (entry_path entry)) (filter is_maya_file entries)))"
  by (subst do_gather_maya_files.simps) (simp split: sum.splits)

lemma gather_pos:
  "0 < n \<Longrightarrow>
   do_gather_maya_files os w d n =
     gather_all (do_gather_maya_files os w d 0 #
                 map (\<lambda>s. do_gather_maya_files os w s (n - 1)) (subdirectories os w d))"
  by (subst do_gather_maya_files.simps)
     (simp add: gather_zero subdirectories_def o_def split: sum.splits)

lemma gather_within:
  "do_gather_maya_files os w d (int k) =
     gather_all (map (\<lambda>d'. do_gather_maya_files os w d' 0) (dirs_within os w d k))"
proof (induction k arbitrary: d)
  case 0
  show ?case by (simp split: sum.splits)
next
  case (Suc k)
  have "do_gather_maya_files os w d (int (Suc k)) =
          gather_all (do_gather_maya_files os w d 0 #
                      map (\<lambda>s. do_gather_maya_files os w s (int k)) (subdirectories os w d))"
    using gather_pos [of "int (Suc k)" os w d] by simp
  also have "\<dots> = gather_all (do_gather_maya_files os w d 0 #
        map (\<lambda>s. gather_all (map (\<lambda>d'. do_gather_maya_files os w d' 0) (dirs_within os w s k)))
          (subdirectories os w d))"
    by (simp only: Suc.IH)
  also have "\<dots> = gather_all (map (\<lambda>d'. do_gather_maya_files os w d' 0)
                                  (dirs_within os w d (Suc k)))"
    by (simp add: gather_all_concat o_def map_map cong: sum.case_cong)
  finally show ?case .
qed

text \<open>
  C5. A scan with a negative depth returns the empty list. A scan with depth \<open>0\<close> returns
  the normalised paths of the entries of the root's own listing that are files named
  \<open>*.mb\<close> or \<open>*.ma\<close>, and nothing from below. A scan with depth \<open>n > 0\<close> returns
  the depth-\<open>0\<close> result followed by the depth-\<open>(n - 1)\<close> scans of the immediate
  subdirectories; it is the concatenation of the depth-\<open>0\<close> results of all directories
  within \<open>n\<close> hops, so its files are exactly the union of those results. A listing that
  raises makes the whole scan raise that error.
\<close>

theorem do_gather_maya_files_depth:
  "(n < 0 \<longrightarrow> do_gather_maya_files os w d n = Inr []) \<and>
   do_gather_maya_files os w d 0 =
     (case scandir os w d of
        Inl e \<Rightarrow> Inl e
      | Inr entries \<Rightarrow>
          Inr (map (\<lambda>entry. normalized_path os (entry_path entry))
                 (filter is_maya_file entries))) \<and>
   (0 < n \<longrightarrow>
      do_gather_maya_files os w d n =
        gather_all (do_gather_maya_files os w d 0 #
                    map (\<lambda>s. do_gather_maya_files os w s (n - 1)) (subdirectories os w d))) \<and>
   (0 \<le> n \<longrightarrow>
      do_gather_maya_files os w d n =
        gather_all (map (\<lambda>d'. do_gather_maya_files os w d' 0) (dirs_within os w d (nat n)))) \<and>
   (0 \<le> n \<and> do_gather_maya_files os w d n = Inr fs \<longrightarrow>
      set fs = (\<Union>d' \<in> set (dirs_within os w d (nat n)).
                  files_of (do_gather_maya_files os w d' 0)))"
proof -
  have within: "do_gather_maya_files os w d n =
      gather_all (map (\<lambda>d'. do_gather_maya_files os w d' 0) (dirs_within os w d (nat n)))"
    if "0 \<le> n"
    using gather_within [of os w d "nat n"] that by simp
  have union: "set fs = (\<Union>d' \<in> set (dirs_within os w d (nat n)).
                  files_of (do_gather_maya_files os w d' 0))"
    if "0 \<le> n" and "do_gather_maya_files os w d n = Inr fs"
    using gather_all_files_of [of "map (\<lambda>d'. do_gather_maya_files os w d' 0)
                                     (dirs_within os w d (nat n))" fs]
      within [OF that(1)] that(2) by simp
  show ?thesis
    using gather_neg [of n os w d] gather_zero [of os w d] gather_pos [of n os w d] within union
    by blast
qed

lemma example_gather_2:
  "do_gather_maya_files (sim_os ''Linux'') example_world ''/proj'' 2 =
     Inr [''/proj/a.ma'', ''/proj/b.mb'', ''/proj/hero.rig_bak.mb'',
          ''/proj/sub/c.ma'', ''/proj/sub/deep/d.mb'']"
  by (simp add: gather_pos gather_zero subdirectories_def sim_os_def example_world_def
        normalized_path_def is_maya_file_def endswith_def)

lemma example_dirs_2:
  "dirs_within (sim_os ''Linux'') example_world ''/proj'' (nat 2) = [''/proj'', ''/proj/sub'', ''/proj/sub/deep'']"
  by (simp add: numeral_2_eq_2 subdirectories_def sim_os_def example_world_def normalized_path_def)

theorem do_gather_maya_files_depth_witness:
  "do_gather_maya_files (sim_os ''Linux'') example_world ''/proj'' (- 1) = Inr [] \<and>
   do_gather_maya_files (sim_os ''Linux'') example_world ''/proj'' 0 =
     Inr [''/proj/a.ma'', ''/proj/b.mb'', ''/proj/hero.rig_bak.mb''] \<and>
   do_gather_maya_files (sim_os ''Linux'') example_world ''/proj'' 2 =
     Inr [''/proj/a.ma'', ''/proj/b.mb'', ''/proj/hero.rig_bak.mb'',
          ''/proj/sub/c.ma'', ''/proj/sub/deep/d.mb''] \<and>
   dirs_within (sim_os ''Linux'') example_world ''/proj'' (nat 2) =
     [''/proj'', ''/proj/sub'', ''/proj/sub/deep''] \<and>
   set [''/proj/a.ma'', ''/proj/b.mb'', ''/proj/hero.rig_bak.mb'',
        ''/proj/sub/c.ma'', ''/proj/sub/deep/d.mb''] =
     (\<Union>d' \<in> set (dirs_within (sim_os ''Linux'') example_world ''/proj'' (nat 2)).
        files_of (do_gather_maya_files (sim_os ''Linux'') example_world d' 0))"
proof -
  have neg: "(- 1 :: int) < 0" and nonneg: "(0 :: int) \<le> 2" by simp_all
  note at_neg = do_gather_maya_files_depth
    [where n = "- 1" and os = "sim_os ''Linux''" and w = example_world and d = "''/proj''"]
  note at_two = do_gather_maya_files_depth
    [where n = 2 and os = "sim_os ''Linux''" and w = example_world and d = "''/proj''"
       and fs = "[''/proj/a.ma'', ''/proj/b.mb'', ''/proj/hero.rig_bak.mb'',
                  ''/proj/sub/c.ma'', ''/proj/sub/deep/d.mb'']"]
  have zero: "do_gather_maya_files (sim_os ''Linux'') example_world ''/proj'' 0 =
     Inr [''/proj/a.ma'', ''/proj/b.mb'', ''/proj/hero.rig_bak.mb'']"
    using at_neg
    by (simp add: sim_os_def example_world_def normalized_path_def is_maya_file_def
          endswith_def)
  from at_neg neg have c1: "do_gather_maya_files (sim_os ''Linux'') example_world ''/proj'' (- 1) = Inr []"
    by blast
  from at_two nonneg example_gather_2 have c5:
    "set [''/proj/a.ma'', ''/proj/b.mb'', ''/proj/hero.rig_bak.mb'',
        ''/proj/sub/c.ma'', ''/proj/sub/deep/d.mb''] =
     (\<Union>d' \<in> set (dirs_within (sim_os ''Linux'') example_world ''/proj'' (nat 2)).
        files_of (do_gather_maya_files (sim_os ''Linux'') example_world d' 0))"
    by blast
  from c1 zero example_gather_2 example_dirs_2 c5 show ?thesis by blast
qed

section \<open>Properties of the filter stage\<close>

lemma split_char_not_Nil: "split_char c s \<noteq> []"
  by (induction s) (auto split: list.splits)

lemma hd_split_char: "hd (split_char c s) = takeWhile (\<lambda>x. x \<noteq> c) s"
  by (induction s) (auto simp: split_char_not_Nil split: list.splits)

lemma takeWhile_until: "c \<notin> set xs \<Longrightarrow> takeWhile (\<lambda>x. x \<noteq> c) (xs @ c # ys) = xs"
  by (induction xs) auto

lemma dropWhile_until: "c \<notin> set xs \<Longrightarrow> dropWhile (\<lambda>x. x \<noteq> c) (xs @ c # ys) = c # ys"
  by (induction xs) auto

lemma basename_after_slash:
  "CHR ''/'' \<notin> set b \<Longrightarrow> basename (dir @ CHR ''/'' # b) = b"
  by (simp add: basename_def takeWhile_until)

lemma stem_single_dot:
  assumes "CHR ''.'' \<notin> set xs" and "CHR ''.'' \<notin> set ys"
  shows "takeWhile (\<lambda>c. c \<noteq> CHR ''.'') (xs @ CHR ''.'' # ys) = xs"
    and "rev (tl (dropWhile (\<lambda>c. c \<noteq> CHR ''.'') (rev (xs @ CHR ''.'' # ys)))) = xs"
  using assms by (simp_all add: takeWhile_until dropWhile_until)

text \<open>
  Where the basename has one dot, the suffix check of the source looks at the basename
  minus its extension.
\<close>

lemma suffix_filter_single_dot:
  assumes "CHR ''.'' \<notin> set xs" and "CHR ''.'' \<notin> set ys"
    and "CHR ''/'' \<notin> set xs" and "CHR ''/'' \<notin> set ys"
  shows "basename_minus_extension_spec (dir @ CHR ''/'' # xs @ CHR ''.'' # ys) = xs"
    and "filter_file [] suffix [] None (dir @ CHR ''/'' # xs @ CHR ''.'' # ys) =
       (if suffix \<noteq> [] \<and>
           endswith (basename_minus_extension_spec (dir @ CHR ''/'' # xs @ CHR ''.'' # ys)) suffix
        then removed_by_suffix else kept)"
proof -
  have b: "basename (dir @ CHR ''/'' # xs @ CHR ''.'' # ys) = xs @ CHR ''.'' # ys"
    using assms(3,4) by (simp add: basename_after_slash)
  show s: "basename_minus_extension_spec (dir @ CHR ''/'' # xs @ CHR ''.'' # ys) = xs"
    using stem_single_dot(2) [OF assms(1,2)]
    by (simp add: basename_minus_extension_spec_def b)
  show "filter_file [] suffix [] None (dir @ CHR ''/'' # xs @ CHR ''.'' # ys) =
       (if suffix \<noteq> [] \<and>
           endswith (basename_minus_extension_spec (dir @ CHR ''/'' # xs @ CHR ''.'' # ys)) suffix
        then removed_by_suffix else kept)"
    unfolding s using stem_single_dot(1) [OF assms(1,2)]
    by (simp add: filter_file_def b hd_split_char)
qed

text \<open>
  C6. The claim asks that a file be excluded by the suffix filter exactly when its basename
  minus its extension ends with the suffix. The source compares the part of the basename
  before its first dot: with suffix \<open>_bak\<close>, \<open>hero.rig_bak.mb\<close> is kept although
  \<open>hero.rig_bak\<close> ends with the suffix, and \<open>asset_bak.v2.mb\<close> is removed although
  \<open>asset_bak.v2\<close> does not.
\<close>

theorem suffix_filter_first_dot:
  "endswith (basename_minus_extension_spec ''/proj/hero.rig_bak.mb'') ''_bak'' \<and>
   filter_file [] ''_bak'' [] (parse_file_type ''mb,ma'') ''/proj/hero.rig_bak.mb'' = kept \<and>
   filter_files [] ''_bak'' [] (parse_file_type ''mb,ma'') [''/proj/hero.rig_bak.mb'']
     = ([''/proj/hero.rig_bak.mb''], []) \<and>
   \<not> endswith (basename_minus_extension_spec ''/proj/asset_bak.v2.mb'') ''_bak'' \<and>
   filter_file [] ''_bak'' [] (parse_file_type ''mb,ma'') ''/proj/asset_bak.v2.mb''
     = removed_by_suffix"
  by (simp add: filter_file_def basename_minus_extension_spec_def basename_def
        parse_file_type_def endswith_def startswith_def)

section \<open>Properties of the batch executor\<close>

lemma execute_range_done:
  "n \<le> i \<or> length d \<le> i \<Longrightarrow> execute_range os maya ct cmd ws i n d w = (d, w, None)"
  by (subst execute_range.simps) simp

lemma execute_range_step:
  "i < n \<Longrightarrow> i < length d \<Longrightarrow>
   execute_range os maya ct cmd ws i n d w =
     (case process_file os maya ct cmd ws i d w of
        (d', w', Some e) \<Rightarrow> (d', w', Some e)
      | (d', w', None) \<Rightarrow>
          (if length d' \<noteq> length d then
             (d', w', Some (RuntimeError ''dictionary changed size during iteration''))
           else execute_range os maya ct cmd ws (Suc i) n d' w'))"
  by (subst execute_range.simps) simp

lemma execute_range_length:
  "execute_range os maya ct cmd ws i n d w = (d1, w1, None) \<Longrightarrow> length d1 = length d"
proof (induction os maya ct cmd ws i n d w rule: execute_range.induct)
  case (1 os maya ct cmd ws i n d w)
  show ?case
  proof (cases "n \<le> i \<or> length d \<le> i")
    case True
    with "1.prems" show ?thesis by (simp add: execute_range_done)
  next
    case False
    obtain d' w' r where p: "process_file os maya ct cmd ws i d w = (d', w', r)"
      by (cases "process_file os maya ct cmd ws i d w")
    from False "1.prems" p have r: "r = None" and len: "length d' = length d"
      and rec: "execute_range os maya ct cmd ws (Suc i) n d' w' = (d1, w1, None)"
      by (auto simp: execute_range_step split: option.splits if_splits)
    from "1.IH" [OF False p [symmetric] refl] r len rec show ?thesis by simp
  qed
qed

lemma execute_range_split:
  "i \<le> k \<Longrightarrow> k \<le> n \<Longrightarrow>
   execute_range os maya ct cmd ws i n d w =
     (case execute_range os maya ct cmd ws i k d w of
        (d1, w1, Some e) \<Rightarrow> (d1, w1, Some e)
      | (d1, w1, None) \<Rightarrow> execute_range os maya ct cmd ws k n d1 w1)"
proof (induction os maya ct cmd ws i k d w rule: execute_range.induct)
  case (1 os maya ct cmd ws i k d w)
  show ?case
  proof (cases "k \<le> i \<or> length d \<le> i")
    case True
    with "1.prems" show ?thesis by (auto simp: execute_range_done)
  next
    case False
    with "1.prems" have i: "i < k" "i < n" "i < length d" by auto
    obtain d' w' r where p: "process_file os maya ct cmd ws i d w = (d', w', r)"
      by (cases "process_file os maya ct cmd ws i d w")
    show ?thesis
    proof (cases "r = None \<and> length d' = length d")
      case True
      from "1.IH" [OF False p [symmetric] refl] True i "1.prems"
      have "execute_range os maya ct cmd ws (Suc i) n d' w' =
        (case execute_range os maya ct cmd ws (Suc i) k d' w' of
           (d1, w1, Some e) \<Rightarrow> (d1, w1, Some e)
         | (d1, w1, None) \<Rightarrow> execute_range os maya ct cmd ws k n d1 w1)"
        by simp
      with True i p show ?thesis by (simp add: execute_range_step)
    next
      case False
      with i p show ?thesis by (auto simp: execute_range_step split: option.splits)
    qed
  qed
qed

lemmas example_defs =
  process_file_def check_file_status_def sim_os_def sim_maya_def pending_def example_world_def

lemma example_prefix_2:
  "execute_range (sim_os ''Linux'') (sim_maya []) ''python'' ''cmd'' True 0 (Suc (Suc 0))
     [(''/proj/a.ma'', pending ''/proj/a.ma'' writable),
      (''/proj/b.mb'', pending ''/proj/b.mb'' writable),
      (''/proj/gone.ma'', pending ''/proj/gone.ma'' writable)] example_world =
   ([(''/proj/a.ma'', pending ''/proj/a.ma'' writable),
     (''/proj/b.mb'', (pending ''/proj/b.mb'' writable)\<lparr>result := Some file_tampered\<rparr>),
     (''/proj/gone.ma'', pending ''/proj/gone.ma'' writable)],
    example_world\<lparr>sim_opened := [''/proj/a.ma'']\<rparr>, None)"
  by (simp add: execute_range_step execute_range_done example_defs)

text \<open>
  C2. When the loop is at a file whose stored status is \<open>writable\<close> and a fresh
  classification of its path is not \<open>writable\<close>, the file's result becomes
  \<open>file_missing\<close> if the path does not exist and \<open>file_tampered\<close> otherwise; the
  machine state and every other record are as the file was reached (the file is neither
  opened nor changed, whatever the host functions would do), and the loop goes on with the
  next file. In particular this holds in a run of the whole collection that has reached the
  file without an exception.
\<close>

theorem drift_recheck:
  assumes "i < length d1"
    and "d1 ! i = (file, pf)"
    and "status pf = writable"
    and "check_file_status os w1 file \<noteq> writable"
  shows "process_file os maya ct cmd ws i d1 w1 =
           (d1[i := (file, pf\<lparr>result := Some (if path_exists os w1 file then file_tampered
                                                else file_missing)\<rparr>)],
            w1, None) \<and>
         (i < n \<longrightarrow>
            execute_range os maya ct cmd ws i n d1 w1 =
              execute_range os maya ct cmd ws (Suc i) n
                (d1[i := (file, pf\<lparr>result := Some (if path_exists os w1 file then file_tampered
                                                     else file_missing)\<rparr>)]) w1) \<and>
         (execute_range os maya ct cmd ws 0 i d w = (d1, w1, None) \<longrightarrow>
            execute_files os maya ct cmd ws d w =
              execute_range os maya ct cmd ws (Suc i) (length d)
                (d1[i := (file, pf\<lparr>result := Some (if path_exists os w1 file then file_tampered
                                                     else file_missing)\<rparr>)]) w1)"
proof -
  let ?d2 = "d1[i := (file, pf\<lparr>result := Some (if path_exists os w1 file then file_tampered
                                                else file_missing)\<rparr>)]"
  have step: "process_file os maya ct cmd ws i d1 w1 = (?d2, w1, None)"
    using assms(2-4) by (simp add: process_file_def)
  have loop: "execute_range os maya ct cmd ws i m d1 w1 =
      execute_range os maya ct cmd ws (Suc i) m ?d2 w1" if "i < m" for m
    using execute_range_step [OF that assms(1), of os maya ct cmd ws w1] step by simp
  have run: "execute_files os maya ct cmd ws d w =
      execute_range os maya ct cmd ws (Suc i) (length d) ?d2 w1"
    if pre: "execute_range os maya ct cmd ws 0 i d w = (d1, w1, None)"
  proof -
    have len: "length d1 = length d" using execute_range_length [OF pre] .
    with assms(1) have i: "i < length d" by simp
    have "execute_files os maya ct cmd ws d w =
        execute_range os maya ct cmd ws i (length d) d1 w1"
      unfolding execute_files_def
      using execute_range_split [of 0 i "length d" os maya ct cmd ws d w] i pre by simp
    with loop [OF i] show ?thesis by simp
  qed
  from step loop run show ?thesis by blast
qed

theorem drift_recheck_witness:
  "execute_files (sim_os ''Linux'') (sim_maya []) ''python'' ''cmd'' True
     [(''/proj/a.ma'', pending ''/proj/a.ma'' writable),
      (''/proj/b.mb'', pending ''/proj/b.mb'' writable),
      (''/proj/gone.ma'', pending ''/proj/gone.ma'' writable)] example_world =
   ([(''/proj/a.ma'', pending ''/proj/a.ma'' writable),
     (''/proj/b.mb'', (pending ''/proj/b.mb'' writable)\<lparr>result := Some file_tampered\<rparr>),
     (''/proj/gone.ma'', (pending ''/proj/gone.ma'' writable)\<lparr>result := Some file_missing\<rparr>)],
    example_world\<lparr>sim_opened := [''/proj/a.ma'']\<rparr>, None) \<and>
   process_file (sim_os ''Linux'') (sim_maya []) ''python'' ''cmd'' True (Suc 0)
     [(''/proj/a.ma'', pending ''/proj/a.ma'' writable),
      (''/proj/b.mb'', pending ''/proj/b.mb'' writable),
      (''/proj/gone.ma'', pending ''/proj/gone.ma'' writable)]
     (example_world\<lparr>sim_opened := [''/proj/a.ma'']\<rparr>) =
   ([(''/proj/a.ma'', pending ''/proj/a.ma'' writable),
     (''/proj/b.mb'', (pending ''/proj/b.mb'' writable)\<lparr>result := Some file_tampered\<rparr>),
     (''/proj/gone.ma'', pending ''/proj/gone.ma'' writable)],
    example_world\<lparr>sim_opened := [''/proj/a.ma'']\<rparr>, None)"
proof -
  let ?w1 = "example_world\<lparr>sim_opened := [''/proj/a.ma'']\<rparr>"
  let ?d = "[(''/proj/a.ma'', pending ''/proj/a.ma'' writable),
      (''/proj/b.mb'', pending ''/proj/b.mb'' writable),
      (''/proj/gone.ma'', pending ''/proj/gone.ma'' writable)]"
  let ?d1 = "[(''/proj/a.ma'', pending ''/proj/a.ma'' writable),
     (''/proj/b.mb'', (pending ''/proj/b.mb'' writable)\<lparr>result := Some file_tampered\<rparr>),
     (''/proj/gone.ma'', pending ''/proj/gone.ma'' writable)]"
  have b1: "Suc 0 < length ?d" by simp
  have b2: "?d ! Suc 0 = (''/proj/b.mb'', pending ''/proj/b.mb'' writable)" by simp
  have b3: "status (pending ''/proj/b.mb'' writable) = writable" by (simp add: pending_def)
  have b4: "check_file_status (sim_os ''Linux'') ?w1 ''/proj/b.mb'' \<noteq> writable"
    by (simp add: check_file_status_def sim_os_def example_world_def)
  have b5: "path_exists (sim_os ''Linux'') ?w1 ''/proj/b.mb''"
    by (simp add: sim_os_def example_world_def)
  have g1: "Suc (Suc 0) < length ?d1" by simp
  have g2: "?d1 ! Suc (Suc 0) = (''/proj/gone.ma'', pending ''/proj/gone.ma'' writable)" by simp
  have g3: "status (pending ''/proj/gone.ma'' writable) = writable" by (simp add: pending_def)
  have g4: "check_file_status (sim_os ''Linux'') ?w1 ''/proj/gone.ma'' \<noteq> writable"
    by (simp add: check_file_status_def sim_os_def example_world_def)
  have g5: "\<not> path_exists (sim_os ''Linux'') ?w1 ''/proj/gone.ma''"
    by (simp add: sim_os_def example_world_def)
  from drift_recheck [OF b1 b2 b3 b4, where maya = "sim_maya []" and ct = "''python''"
      and cmd = "''cmd''" and ws = True] b5
  have step: "process_file (sim_os ''Linux'') (sim_maya []) ''python'' ''cmd'' True (Suc 0) ?d ?w1 =
      (?d1, ?w1, None)"
    by simp
  from drift_recheck [OF g1 g2 g3 g4, where maya = "sim_maya []" and ct = "''python''"
      and cmd = "''cmd''" and ws = True and d = ?d and w = example_world] g5 example_prefix_2
  have run: "execute_files (sim_os ''Linux'') (sim_maya []) ''python'' ''cmd'' True ?d example_world =
      ([(''/proj/a.ma'', pending ''/proj/a.ma'' writable),
        (''/proj/b.mb'', (pending ''/proj/b.mb'' writable)\<lparr>result := Some file_tampered\<rparr>),
        (''/proj/gone.ma'', (pending ''/proj/gone.ma'' writable)\<lparr>result := Some file_missing\<rparr>)],
       ?w1, None)"
    by (simp add: execute_range_done)
  from run step show ?thesis by simp
qed

text \<open>
  A command that raises on a file that passed the re-check ends the loop there, with the
  collection and machine state the command left, for every command and host.
\<close>

lemma script_error_escapes:
  assumes "i < n" and "i < length d"
    and "d ! i = (file, pf)"
    and "status pf = writable"
    and "check_file_status os w file = writable"
    and "file_open maya w file = (w1, None)"
    and "(if ct = ''python'' then exec_python maya cmd file d w1
          else mel_eval maya cmd file d w1) = (d2, w2, Some e)"
  shows "execute_range os maya ct cmd ws i n d w = (d2, w2, Some e)"
  using execute_range_step [OF assms(1,2), of os maya ct cmd ws w] assms(3-7)
  by (simp add: process_file_def)

text \<open>
  C1. The claim asks that a file which passes the drift re-check get the outcome
  \<open>success\<close> when the script runs without raising and \<open>failed\<close>, with the error's
  message as diagnostic, when it raises, and that the executor go on to every remaining
  file. In a run over three writable files, with a command that touches no record and
  raises on the second file, the source stores no result for the first file and none for
  the second, stores no diagnostic, never opens the third, skips the final scene reset and
  lets the error out.
\<close>

theorem script_error_aborts_batch:
  "execute_confirmed (sim_os ''Linux'') (sim_maya [''/proj/hero.rig_bak.mb''])
     ''python'' ''cmd'' True
     [(''/proj/a.ma'', pending ''/proj/a.ma'' writable),
      (''/proj/hero.rig_bak.mb'', pending ''/proj/hero.rig_bak.mb'' writable),
      (''/proj/sub/c.ma'', pending ''/proj/sub/c.ma'' writable)] example_world =
   ([(''/proj/a.ma'', pending ''/proj/a.ma'' writable),
     (''/proj/hero.rig_bak.mb'', pending ''/proj/hero.rig_bak.mb'' writable),
     (''/proj/sub/c.ma'', pending ''/proj/sub/c.ma'' writable)],
    example_world\<lparr>sim_opened := [''/proj/a.ma'', ''/proj/hero.rig_bak.mb'']\<rparr>,
    Some (OtherError ''script failed'')) \<and>
   result (pending ''/proj/a.ma'' writable) \<noteq> Some success \<and>
   result (pending ''/proj/hero.rig_bak.mb'' writable) \<noteq> Some failed \<and>
   warning (pending ''/proj/hero.rig_bak.mb'' writable) = None"
  by (simp add: execute_confirmed_def execute_files_def execute_range_step execute_range_done
        example_defs)

end
